theory Spec2Isabelle
  imports Main
begin

section \<open>Go values\<close>

text \<open>
  A Go slice is either \<open>nil\<close> or a sequence of elements; \<open>encoding/json\<close> tells the two
  apart (\<open>null\<close> against \<open>[]\<close>), so the model keeps the difference: \<open>None\<close> is the nil
  slice. \<open>append(s, xs...)\<close> with no element to add returns \<open>s\<close> itself, so a nil slice
  stays nil.
\<close>

type_synonym 'a slice = "'a list option"

definition elems :: "'a slice \<Rightarrow> 'a list" where
  "elems s = (case s of None \<Rightarrow> [] | Some xs \<Rightarrow> xs)"

fun append_slice :: "'a slice \<Rightarrow> 'a list \<Rightarrow> 'a slice" where
  "append_slice s [] = s"
| "append_slice None (x # xs) = Some (x # xs)"
| "append_slice (Some ys) (x # xs) = Some (ys @ x # xs)"

text \<open>
  A value of Go's \<open>error\<close> interface is \<open>nil\<close> (\<open>None\<close>) or an error, which the handler
  only ever asks for its message (\<open>err.Error()\<close>, or \<open>%v\<close> in a format string).
\<close>

type_synonym go_error = "string option"

section \<open>Data model\<close>

text \<open>
  \<open>PatchOperation\<close> (admit.go, lines 36-40). \<open>Value\<close> is an \<open>interface{}\<close>: the type
  parameter stands for the Go values a decision function may put there.
\<close>

record 'v PatchOperation =
  Op :: string
  Path :: string
  Value :: 'v

text \<open>
  The admission types are declared in \<open>k8s.io/api/admission/v1\<close> and
  \<open>k8s.io/apimachinery\<close>, outside the repository. The records hold the fields the
  handler reads or writes; a pointer field is an option, \<open>None\<close> for the nil pointer.
  \<open>Patch\<close> is a byte slice.
\<close>

record TypeMeta =
  Kind :: string
  APIVersion :: string

record AdmissionRequest =
  req_UID :: string
  req_Namespace :: string
  req_Object :: string

record Status =
  Message :: string

record AdmissionResponse =
  rsp_UID :: string
  Allowed :: bool
  Result :: "Status option"
  Patch :: "char slice"
  PatchType :: "string option"

record AdmissionReview =
  typeMeta :: TypeMeta
  Request :: "AdmissionRequest option"
  Response :: "AdmissionResponse option"

definition NamespacePublic :: string where
  "NamespacePublic = ''kube-public''"

definition NamespaceSystem :: string where
  "NamespaceSystem = ''kube-system''"

definition PatchTypeJSONPatch :: string where
  "PatchTypeJSONPatch = ''JSONPatch''"

definition MethodPost :: string where
  "MethodPost = ''POST''"

definition StatusOK :: nat where
  "StatusOK = 200"

definition StatusBadRequest :: nat where
  "StatusBadRequest = 400"

definition StatusMethodNotAllowed :: nat where
  "StatusMethodNotAllowed = 405"

definition StatusInternalServerError :: nat where
  "StatusInternalServerError = 500"

definition jsonContentType :: string where
  "jsonContentType = ''application/json''"

text \<open>
  \<open>AdmitFunc\<close> (line 44): a decision function returns a slice of patch operations and an
  error, and Go lets both be non-nil at once.
\<close>

type_synonym 'v AdmitFunc = "AdmissionRequest \<Rightarrow> 'v PatchOperation slice \<times> go_error"

record 'v admissionController =
  admitFuncs :: "'v AdmitFunc list"

definition New :: "'v admissionController" where
  "New = \<lparr>admitFuncs = []\<rparr>"

definition Register :: "'v admissionController \<Rightarrow> string \<Rightarrow> 'v AdmitFunc \<Rightarrow> 'v admissionController" where
  "Register ac name adm = ac\<lparr>admitFuncs := admitFuncs ac @ [adm]\<rparr>"

definition isKubeNamespace :: "string \<Rightarrow> bool" where
  "isKubeNamespace ns \<longleftrightarrow> ns = NamespacePublic \<or> ns = NamespaceSystem"

section \<open>Library calls\<close>

text \<open>
  The deserializer and the JSON encoder are library code. What they compute is a parameter
  of the model: \<open>Decode\<close> is \<open>UniversalDeserializer.Decode(body, nil, &admissionReviewReq)\<close>,
  \<open>Marshal_op\<close> is \<open>json.Marshal\<close> on one \<open>PatchOperation\<close> (it fails on a \<open>Value\<close> that
  JSON cannot express), \<open>Marshal_review\<close> is \<open>json.Marshal\<close> on the review. Each returns
  \<open>Inl\<close> of the error's message or \<open>Inr\<close> of the result.
\<close>

record 'v codecs =
  Decode :: "string \<Rightarrow> string + AdmissionReview"
  Marshal_op :: "'v PatchOperation \<Rightarrow> string + string"
  Marshal_review :: "AdmissionReview \<Rightarrow> string + string"

text \<open>
  \<open>json.Marshal\<close> on a slice: \<open>null\<close> for the nil slice, otherwise the elements'
  encodings between brackets, separated by commas; the first element that fails makes the
  whole call fail.
\<close>

fun marshal_elems :: "('a \<Rightarrow> string + string) \<Rightarrow> 'a list \<Rightarrow> string + string list" where
  "marshal_elems enc [] = Inr []"
| "marshal_elems enc (x # xs) =
     (case enc x of
        Inl e \<Rightarrow> Inl e
      | Inr b \<Rightarrow> (case marshal_elems enc xs of Inl e \<Rightarrow> Inl e | Inr bs \<Rightarrow> Inr (b # bs)))"

fun join_comma :: "string list \<Rightarrow> string" where
  "join_comma [] = []"
| "join_comma [b] = b"
| "join_comma (b # c # bs) = b @ '','' @ join_comma (c # bs)"

definition json_Marshal_slice :: "('a \<Rightarrow> string + string) \<Rightarrow> 'a slice \<Rightarrow> string + string" where
  "json_Marshal_slice enc s =
     (case s of
        None \<Rightarrow> Inr ''null''
      | Some xs \<Rightarrow>
          (case marshal_elems enc xs of
             Inl e \<Rightarrow> Inl e
           | Inr bs \<Rightarrow> Inr (''['' @ join_comma bs @ '']'')))"

section \<open>Effects of a handler\<close>

text \<open>
  What a handler does besides returning is recorded in order: the calls on the
  \<open>http.ResponseWriter\<close>, the read of the request body, and the call of the decision
  function at a position of the registered list.
\<close>

datatype effect = WriteHeader nat | Write string | ReadAll | Invoke nat

text \<open>
  The status \<open>net/http\<close> sends: the first \<open>WriteHeader\<close> decides it and later ones are
  ignored; a \<open>Write\<close> with no \<open>WriteHeader\<close> before it sends 200.
\<close>

fun statusCode :: "effect list \<Rightarrow> nat option" where
  "statusCode [] = None"
| "statusCode (WriteHeader c # es) = Some c"
| "statusCode (Write b # es) = Some StatusOK"
| "statusCode (e # es) = statusCode es"

record http_Request =
  Method :: string
  Header :: "string \<rightharpoonup> string list"
  Body :: "string + string"

text \<open>
  \<open>Body\<close> is what \<open>io.ReadAll(r.Body)\<close> returns: \<open>Inl\<close> of the read error or \<open>Inr\<close> of
  the bytes. \<open>Header.Get\<close> returns the first value of a key, or the empty string.
\<close>

definition Header_Get :: "(string \<rightharpoonup> string list) \<Rightarrow> string \<Rightarrow> string" where
  "Header_Get h k = (case h k of None \<Rightarrow> [] | Some [] \<Rightarrow> [] | Some (v # vs) \<Rightarrow> v)"

section \<open>The controller's handler (admit.go, lines 78-177)\<close>

text \<open>
  The loop of lines 123-129 over \<open>ac.admitFuncs\<close>, from position \<open>i\<close> on. A function that
  returns an error ends the loop (\<open>break\<close>); its operations are not appended.
\<close>

fun admitFuncs_loop ::
  "'v AdmitFunc list \<Rightarrow> nat \<Rightarrow> AdmissionRequest \<Rightarrow> 'v PatchOperation slice
    \<Rightarrow> 'v PatchOperation slice \<times> effect list" where
  "admitFuncs_loop [] i req patchOps = (patchOps, [])"
| "admitFuncs_loop (adm # rest) i req patchOps =
     (case adm req of
        (patches, Some e) \<Rightarrow> (patchOps, [Invoke i])
      | (patches, None) \<Rightarrow>
          (case admitFuncs_loop rest (Suc i) req (append_slice patchOps (elems patches)) of
             (ops, evs) \<Rightarrow> (ops, Invoke i # evs)))"

text \<open>Lines 153-158: the review is encoded and the bytes returned.\<close>

definition marshal_response :: "'v codecs \<Rightarrow> AdmissionReview \<Rightarrow> string + string" where
  "marshal_response L review =
     (case Marshal_review L review of
        Inl e \<Rightarrow> Inl (''marshaling response: '' @ e)
      | Inr bytes \<Rightarrow> Inr bytes)"

text \<open>
  \<open>(ac *admissionController) doServeAdmitFunc\<close>. The variable \<open>err\<close> tested at line 133
  is the one declared at line 86 with the body: \<open>patches, err := adm(...)\<close> at line 124
  declares a new \<open>err\<close>, local to that \<open>if\<close> statement, and so does line 101. On the
  path that reaches line 133 the outer \<open>err\<close> is nil.
\<close>

definition admissionController_doServeAdmitFunc ::
  "'v codecs \<Rightarrow> 'v admissionController \<Rightarrow> http_Request \<Rightarrow> effect list \<times> (string + string)" where
  "admissionController_doServeAdmitFunc L ac r =
     (if Method r \<noteq> MethodPost then
        ([WriteHeader StatusMethodNotAllowed],
         Inl (''invalid method '' @ Method r @ '', only POST requests are allowed''))
      else
        (case Body r of
           Inl e \<Rightarrow>
             ([ReadAll, WriteHeader StatusBadRequest], Inl (''could not read request body: '' @ e))
         | Inr body \<Rightarrow>
             (let err = (None :: go_error);
                  contentType = Header_Get (Header r) ''Content-Type''
              in
              if contentType \<noteq> jsonContentType then
                ([ReadAll, WriteHeader StatusBadRequest],
                 Inl (''unsupported content type '' @ contentType @ '', only '' @ jsonContentType
                      @ '' is supported''))
              else
                (case Decode L body of
                   Inl e \<Rightarrow>
                     ([ReadAll, WriteHeader StatusBadRequest],
                      Inl (''could not deserialize request: '' @ e))
                 | Inr admissionReviewReq \<Rightarrow>
                     (case Request admissionReviewReq of
                        None \<Rightarrow>
                          ([ReadAll, WriteHeader StatusBadRequest],
                           Inl ''malformed admission review: request is nil'')
                      | Some req \<Rightarrow>
                          (let response = \<lparr>rsp_UID = req_UID req, Allowed = False, Result = None,
                                            Patch = None, PatchType = None\<rparr>;
                               (patchOps, calls) =
                                 (if \<not> isKubeNamespace (req_Namespace req)
                                  then admitFuncs_loop (admitFuncs ac) 0 req None
                                  else (None, []))
                           in
                           (case err of
                              Some m \<Rightarrow>
                                (ReadAll # calls,
                                 marshal_response L
                                   \<lparr>typeMeta = typeMeta admissionReviewReq, Request = Some req,
                                    Response = Some (response\<lparr>Allowed := False,
                                                              Result := Some \<lparr>Message = m\<rparr>\<rparr>)\<rparr>)
                            | None \<Rightarrow>
                                (case json_Marshal_slice (Marshal_op L) patchOps of
                                   Inl e \<Rightarrow>
                                     (ReadAll # calls @ [WriteHeader StatusInternalServerError],
                                      Inl (''could not marshal JSON patch: '' @ e))
                                 | Inr patchBytes \<Rightarrow>
                                     (ReadAll # calls,
                                      marshal_response L
                                        \<lparr>typeMeta = typeMeta admissionReviewReq, Request = Some req,
                                         Response = Some (response\<lparr>Allowed := True,
                                                                   Patch := Some patchBytes,
                                                                   PatchType := Some PatchTypeJSONPatch\<rparr>)\<rparr>)))))))))"

text \<open>
  \<open>ServeHTTP\<close> (lines 162-177). A failed \<open>Write\<close> is only logged; logging is not modelled.
\<close>

definition admissionController_ServeHTTP ::
  "'v codecs \<Rightarrow> 'v admissionController \<Rightarrow> http_Request \<Rightarrow> effect list" where
  "admissionController_ServeHTTP L ac r =
     (case admissionController_doServeAdmitFunc L ac r of
        (evs, Inl e) \<Rightarrow> evs @ [WriteHeader StatusInternalServerError, Write e]
      | (evs, Inr bytes) \<Rightarrow> evs @ [Write bytes])"

section \<open>The single-function handler (admit.go, lines 236-334)\<close>

text \<open>
  \<open>doServeAdmitFunc(w, r, adm)\<close>: line 279 assigns the function's results to \<open>patchOps\<close>
  and to the \<open>err\<close> of line 244, so line 282 tests the function's error. The review it
  builds has neither the request nor its type, and no patch type.
\<close>

definition doServeAdmitFunc ::
  "'v codecs \<Rightarrow> http_Request \<Rightarrow> 'v AdmitFunc \<Rightarrow> effect list \<times> (string + string)" where
  "doServeAdmitFunc L r adm =
     (if Method r \<noteq> MethodPost then
        ([WriteHeader StatusMethodNotAllowed],
         Inl (''invalid method '' @ Method r @ '', only POST requests are allowed''))
      else
        (case Body r of
           Inl e \<Rightarrow>
             ([ReadAll, WriteHeader StatusBadRequest], Inl (''could not read request body: '' @ e))
         | Inr body \<Rightarrow>
             (let contentType = Header_Get (Header r) ''Content-Type'' in
              if contentType \<noteq> jsonContentType then
                ([ReadAll, WriteHeader StatusBadRequest],
                 Inl (''unsupported content type '' @ contentType @ '', only '' @ jsonContentType
                      @ '' is supported''))
              else
                (case Decode L body of
                   Inl e \<Rightarrow>
                     ([ReadAll, WriteHeader StatusBadRequest],
                      Inl (''could not deserialize request: '' @ e))
                 | Inr admissionReviewReq \<Rightarrow>
                     (case Request admissionReviewReq of
                        None \<Rightarrow>
                          ([ReadAll, WriteHeader StatusBadRequest],
                           Inl ''malformed admission review: request is nil'')
                      | Some req \<Rightarrow>
                          (let response = \<lparr>rsp_UID = req_UID req, Allowed = False, Result = None,
                                            Patch = None, PatchType = None\<rparr>;
                               ((patchOps, err), calls) =
                                 (if \<not> isKubeNamespace (req_Namespace req)
                                  then (adm req, [Invoke 0])
                                  else ((None, None), []))
                           in
                           (case err of
                              Some m \<Rightarrow>
                                (ReadAll # calls,
                                 marshal_response L
                                   \<lparr>typeMeta = \<lparr>Kind = [], APIVersion = []\<rparr>, Request = None,
                                    Response = Some (response\<lparr>Allowed := False,
                                                              Result := Some \<lparr>Message = m\<rparr>\<rparr>)\<rparr>)
                            | None \<Rightarrow>
                                (case json_Marshal_slice (Marshal_op L) patchOps of
                                   Inl e \<Rightarrow>
                                     (ReadAll # calls @ [WriteHeader StatusInternalServerError],
                                      Inl (''could not marshal JSON patch: '' @ e))
                                 | Inr patchBytes \<Rightarrow>
                                     (ReadAll # calls,
                                      marshal_response L
                                        \<lparr>typeMeta = \<lparr>Kind = [], APIVersion = []\<rparr>, Request = None,
                                         Response = Some (response\<lparr>Allowed := True,
                                                                   Patch := Some patchBytes\<rparr>)\<rparr>)))))))))"

definition serveAdmitFunc :: "'v codecs \<Rightarrow> http_Request \<Rightarrow> 'v AdmitFunc \<Rightarrow> effect list" where
  "serveAdmitFunc L r adm =
     (case doServeAdmitFunc L r adm of
        (evs, Inl e) \<Rightarrow> evs @ [WriteHeader StatusInternalServerError, Write e]
      | (evs, Inr bytes) \<Rightarrow> evs @ [Write bytes])"

definition AdmitFuncHandler :: "'v codecs \<Rightarrow> 'v AdmitFunc \<Rightarrow> http_Request \<Rightarrow> effect list" where
  "AdmitFuncHandler L adm = (\<lambda>r. serveAdmitFunc L r adm)"

section \<open>Sample inputs\<close>

text \<open>
  Concrete codecs and requests on which the theorems below are run. The sample decoder
  reads a body \<open>namespace=N\<close> as a review whose request is in namespace \<open>N\<close>, and \<open>{}\<close>
  as a review with no request; the sample encoders list the fields they are given.
\<close>

definition sample_TypeMeta :: TypeMeta where
  "sample_TypeMeta = \<lparr>Kind = ''AdmissionReview'', APIVersion = ''admission.k8s.io/v1''\<rparr>"

definition sample_AdmissionRequest :: "string \<Rightarrow> AdmissionRequest" where
  "sample_AdmissionRequest ns = \<lparr>req_UID = ''uid-1'', req_Namespace = ns, req_Object = []\<rparr>"

definition sample_review :: "string \<Rightarrow> AdmissionReview" where
  "sample_review ns =
     \<lparr>typeMeta = sample_TypeMeta, Request = Some (sample_AdmissionRequest ns), Response = None\<rparr>"

definition sample_Decode :: "string \<Rightarrow> string + AdmissionReview" where
  "sample_Decode body =
     (if body = ''{}'' then Inr \<lparr>typeMeta = sample_TypeMeta, Request = None, Response = None\<rparr>
      else if take 10 body = ''namespace='' then Inr (sample_review (drop 10 body))
      else Inl ''unexpected end of JSON input'')"

definition sample_Marshal_op :: "string PatchOperation \<Rightarrow> string + string" where
  "sample_Marshal_op p =
     (if Value p = ''chan'' then Inl ''json: unsupported type: chan int''
      else Inr (''{'' @ Op p @ '' '' @ Path p @ '' '' @ Value p @ ''}''))"

definition sample_Marshal_review :: "AdmissionReview \<Rightarrow> string + string" where
  "sample_Marshal_review review =
     Inr (case Response review of
            None \<Rightarrow> ''{}''
          | Some rsp \<Rightarrow>
              ''{uid='' @ rsp_UID rsp
              @ '',allowed='' @ (if Allowed rsp then ''true'' else ''false'')
              @ (case Result rsp of None \<Rightarrow> [] | Some st \<Rightarrow> '',message='' @ Message st)
              @ (case Patch rsp of None \<Rightarrow> [] | Some b \<Rightarrow> '',patch='' @ b)
              @ (case PatchType rsp of None \<Rightarrow> [] | Some t \<Rightarrow> '',patchType='' @ t)
              @ ''}'')"

definition sample_codecs :: "string codecs" where
  "sample_codecs =
     \<lparr>Decode = sample_Decode, Marshal_op = sample_Marshal_op,
      Marshal_review = sample_Marshal_review\<rparr>"

definition sample_request :: "string \<Rightarrow> string \<Rightarrow> http_Request" where
  "sample_request m body =
     \<lparr>Method = m, Header = [''Content-Type'' \<mapsto> [''application/json'']], Body = Inr body\<rparr>"

definition add_label :: "string AdmitFunc" where
  "add_label req =
     (Some [\<lparr>Op = ''add'', Path = ''/metadata/labels/injected'', Value = ''true''\<rparr>], None)"

definition no_change :: "string AdmitFunc" where
  "no_change req = (Some [], None)"

definition quota_exceeded :: "string AdmitFunc" where
  "quota_exceeded req = (None, Some ''quota exceeded'')"

section \<open>Facts about the model\<close>

lemmas constant_defs = MethodPost_def jsonContentType_def NamespacePublic_def NamespaceSystem_def
  PatchTypeJSONPatch_def StatusOK_def StatusBadRequest_def StatusMethodNotAllowed_def
  StatusInternalServerError_def

lemmas sample_defs = sample_codecs_def sample_request_def sample_Decode_def sample_review_def
  sample_AdmissionRequest_def sample_Marshal_op_def sample_Marshal_review_def sample_TypeMeta_def
  add_label_def no_change_def quota_exceeded_def Header_Get_def isKubeNamespace_def
  json_Marshal_slice_def marshal_response_def elems_def New_def Register_def

subsection \<open>The sample request reaches the decision functions\<close>

lemma sample_request_Method: "Method (sample_request m body) = m"
  by (simp add: sample_request_def)

lemma sample_request_Body: "Body (sample_request m body) = Inr body"
  by (simp add: sample_request_def)

lemma sample_request_contentType:
  "Header_Get (Header (sample_request m body)) ''Content-Type'' = jsonContentType"
  by (simp add: sample_request_def Header_Get_def jsonContentType_def)

lemma sample_Decode_default:
  "Decode sample_codecs ''namespace=default'' = Inr (sample_review ''default'')"
  by (simp add: sample_codecs_def sample_Decode_def)

lemma sample_Decode_system:
  "Decode sample_codecs ''namespace=kube-system'' = Inr (sample_review ''kube-system'')"
  by (simp add: sample_codecs_def sample_Decode_def)

lemma sample_review_Request: "Request (sample_review ns) = Some (sample_AdmissionRequest ns)"
  by (simp add: sample_review_def)

subsection \<open>The loop over the registered functions\<close>

text \<open>
  A function at position \<open>j\<close> is called only if \<open>j\<close> is a position of the list and every
  function before it returned no error.
\<close>

lemma admitFuncs_loop_Invoke:
  "Invoke j \<in> set (snd (admitFuncs_loop fs k req ops)) \<Longrightarrow>
     k \<le> j \<and> j < k + length fs \<and> (\<forall>i. k \<le> i \<and> i < j \<longrightarrow> snd ((fs ! (i - k)) req) = None)"
proof (induction fs arbitrary: k ops)
  case Nil
  then show ?case by simp
next
  case (Cons adm rest)
  obtain patches err where adm: "adm req = (patches, err)" by (cases "adm req")
  show ?case
  proof (cases err)
    case (Some e)
    with Cons.prems adm show ?thesis by simp
  next
    case None
    obtain ops' evs where rec:
      "admitFuncs_loop rest (Suc k) req (append_slice ops (elems patches)) = (ops', evs)"
      by (cases "admitFuncs_loop rest (Suc k) req (append_slice ops (elems patches))")
    from Cons.prems adm None rec have "j = k \<or> Invoke j \<in> set evs" by auto
    then show ?thesis
    proof
      assume "j = k" then show ?thesis by auto
    next
      assume "Invoke j \<in> set evs"
      with rec have
        "Invoke j \<in> set (snd (admitFuncs_loop rest (Suc k) req (append_slice ops (elems patches))))"
        by simp
      from Cons.IH[OF this] have ih: "Suc k \<le> j" "j < Suc k + length rest"
        "\<forall>i. Suc k \<le> i \<and> i < j \<longrightarrow> snd ((rest ! (i - Suc k)) req) = None" by auto
      have "snd (((adm # rest) ! (i - k)) req) = None" if "k \<le> i" "i < j" for i
      proof (cases "i = k")
        case True
        with adm None show ?thesis by simp
      next
        case False
        with that have "Suc k \<le> i" by simp
        with ih(3) that have "snd ((rest ! (i - Suc k)) req) = None" by simp
        moreover from \<open>Suc k \<le> i\<close> have "i - k = Suc (i - Suc k)" by simp
        ultimately show ?thesis by simp
      qed
      with ih show ?thesis by simp
    qed
  qed
qed

text \<open>Functions that return no operation and no error leave the collected slice as it is.\<close>

lemma admitFuncs_loop_no_ops:
  "\<forall>f\<in>set fs. snd (f req) = None \<and> elems (fst (f req)) = [] \<Longrightarrow>
     fst (admitFuncs_loop fs k req ops) = ops"
proof (induction fs arbitrary: k)
  case Nil
  then show ?case by simp
next
  case (Cons adm rest)
  from Cons.prems have adm: "snd (adm req) = None" "elems (fst (adm req)) = []"
    and rest: "\<forall>f\<in>set rest. snd (f req) = None \<and> elems (fst (f req)) = []"
    by simp_all
  from Cons.IH[OF rest, of "Suc k"] have "fst (admitFuncs_loop rest (Suc k) req ops) = ops" .
  with adm show ?case
    by (cases "adm req"; cases "admitFuncs_loop rest (Suc k) req ops") simp
qed

subsection \<open>What a handler that returns bytes has encoded\<close>

text \<open>
  The controller's handler returns bytes only as the encoding of a review that allows the
  request and carries a patch and the patch type: the branch of lines 134-137 is never taken.
\<close>

lemma admissionController_returns:
  assumes "snd (admissionController_doServeAdmitFunc L ac r) = Inr bytes"
  shows "\<exists>body review req patchBytes.
           Body r = Inr body \<and> Decode L body = Inr review \<and> Request review = Some req
         \<and> Marshal_review L
               \<lparr>typeMeta = typeMeta review, Request = Some req,
                Response = Some \<lparr>rsp_UID = req_UID req, Allowed = True, Result = None,
                                 Patch = Some patchBytes,
                                 PatchType = Some PatchTypeJSONPatch\<rparr>\<rparr> = Inr bytes"
  using assms
  by (auto simp: admissionController_doServeAdmitFunc_def Let_def marshal_response_def
      split: if_splits sum.splits prod.splits option.splits)

text \<open>
  The single-function handler returns bytes as the encoding of a denial with the function's
  message and no patch, or of an allowance with a patch and no patch type.
\<close>

lemma doServeAdmitFunc_returns:
  assumes "snd (doServeAdmitFunc L r adm) = Inr bytes"
  shows "\<exists>body review req.
           Body r = Inr body \<and> Decode L body = Inr review \<and> Request review = Some req
         \<and> ((\<exists>m. Marshal_review L
                    \<lparr>typeMeta = \<lparr>Kind = [], APIVersion = []\<rparr>, Request = None,
                     Response = Some \<lparr>rsp_UID = req_UID req, Allowed = False,
                                      Result = Some \<lparr>Message = m\<rparr>, Patch = None,
                                      PatchType = None\<rparr>\<rparr> = Inr bytes)
            \<or> (\<exists>patchBytes. Marshal_review L
                    \<lparr>typeMeta = \<lparr>Kind = [], APIVersion = []\<rparr>, Request = None,
                     Response = Some \<lparr>rsp_UID = req_UID req, Allowed = True, Result = None,
                                      Patch = Some patchBytes, PatchType = None\<rparr>\<rparr> = Inr bytes))"
  using assms
  by (auto simp: doServeAdmitFunc_def Let_def marshal_response_def
      split: if_splits sum.splits prod.splits option.splits)

text \<open>
  The single-function handler on a failing function: the request is denied with the
  function's message.
\<close>

lemma doServeAdmitFunc_denies:
  "doServeAdmitFunc sample_codecs (sample_request ''POST'' ''namespace=default'') quota_exceeded
   = ([ReadAll, Invoke 0],
      marshal_response sample_codecs
        \<lparr>typeMeta = \<lparr>Kind = [], APIVersion = []\<rparr>, Request = None,
         Response = Some \<lparr>rsp_UID = ''uid-1'', Allowed = False,
                          Result = Some \<lparr>Message = ''quota exceeded''\<rparr>,
                          Patch = None, PatchType = None\<rparr>\<rparr>)"
  by (simp add: doServeAdmitFunc_def constant_defs sample_defs)

section \<open>The claims\<close>

text \<open>
  C1. A request in a non-protected namespace on which a registered function fails should be
  answered with \<open>allowed=false\<close> and the function's message. The controller's handler does
  not: with the single registered function \<open>quota_exceeded\<close> and a request in namespace
  \<open>default\<close>, the review it encodes allows the request, has no result message and carries
  the patch \<open>null\<close>.
\<close>

theorem controller_allows_on_failure:
  "admissionController_doServeAdmitFunc sample_codecs \<lparr>admitFuncs = [quota_exceeded]\<rparr>
     (sample_request ''POST'' ''namespace=default'')
   = ([ReadAll, Invoke 0],
      marshal_response sample_codecs
        \<lparr>typeMeta = sample_TypeMeta,
         Request = Some \<lparr>req_UID = ''uid-1'', req_Namespace = ''default'', req_Object = []\<rparr>,
         Response = Some \<lparr>rsp_UID = ''uid-1'', Allowed = True, Result = None,
                          Patch = Some ''null'', PatchType = Some ''JSONPatch''\<rparr>\<rparr>)"
  by (simp add: admissionController_doServeAdmitFunc_def constant_defs sample_defs)

text \<open>
  C2. When a function fails, the operations collected from the functions before it should
  be discarded. The controller's handler keeps them: with \<open>add_label\<close> registered before
  \<open>quota_exceeded\<close>, the review it encodes allows the request and its patch holds the
  operation of \<open>add_label\<close>.
\<close>

theorem controller_keeps_patches_on_failure:
  "admissionController_doServeAdmitFunc sample_codecs
     (Register (Register New ''label'' add_label) ''quota'' quota_exceeded)
     (sample_request ''POST'' ''namespace=default'')
   = ([ReadAll, Invoke 0, Invoke 1],
      marshal_response sample_codecs
        \<lparr>typeMeta = sample_TypeMeta,
         Request = Some \<lparr>req_UID = ''uid-1'', req_Namespace = ''default'', req_Object = []\<rparr>,
         Response = Some \<lparr>rsp_UID = ''uid-1'', Allowed = True, Result = None,
                          Patch = Some ''[{add /metadata/labels/injected true}]'',
                          PatchType = Some ''JSONPatch''\<rparr>\<rparr>)"
  by (simp add: admissionController_doServeAdmitFunc_def constant_defs sample_defs)

text \<open>
  C3. A request whose namespace is \<open>kube-public\<close> or \<open>kube-system\<close> is allowed, with the
  patch of no operation (the encoding \<open>null\<close> of the nil slice), and no decision function
  is called: the only effect of either handler is the read of the body. This holds whatever
  the registered functions are.
\<close>

theorem protected_namespace_allowed:
  assumes "Method r = MethodPost" and "Body r = Inr body"
    and "Header_Get (Header r) ''Content-Type'' = jsonContentType"
    and "Decode L body = Inr review" and "Request review = Some req"
    and "req_Namespace req = NamespacePublic \<or> req_Namespace req = NamespaceSystem"
  shows "admissionController_doServeAdmitFunc L ac r
           = ([ReadAll],
              marshal_response L
                \<lparr>typeMeta = typeMeta review, Request = Some req,
                 Response = Some \<lparr>rsp_UID = req_UID req, Allowed = True, Result = None,
                                  Patch = Some ''null'', PatchType = Some PatchTypeJSONPatch\<rparr>\<rparr>)
       \<and> doServeAdmitFunc L r adm
           = ([ReadAll],
              marshal_response L
                \<lparr>typeMeta = \<lparr>Kind = [], APIVersion = []\<rparr>, Request = None,
                 Response = Some \<lparr>rsp_UID = req_UID req, Allowed = True, Result = None,
                                  Patch = Some ''null'', PatchType = None\<rparr>\<rparr>)"
  using assms
  by (simp add: admissionController_doServeAdmitFunc_def doServeAdmitFunc_def isKubeNamespace_def
      json_Marshal_slice_def)

text \<open>
  C3 at a request in \<open>kube-system\<close>, with a function that always fails.
\<close>

theorem protected_namespace_allowed_witness:
  "admissionController_doServeAdmitFunc sample_codecs \<lparr>admitFuncs = [quota_exceeded]\<rparr>
     (sample_request ''POST'' ''namespace=kube-system'')
     = ([ReadAll],
        marshal_response sample_codecs
          \<lparr>typeMeta = sample_TypeMeta, Request = Some (sample_AdmissionRequest ''kube-system''),
           Response = Some \<lparr>rsp_UID = ''uid-1'', Allowed = True, Result = None,
                            Patch = Some ''null'', PatchType = Some PatchTypeJSONPatch\<rparr>\<rparr>)
   \<and> doServeAdmitFunc sample_codecs (sample_request ''POST'' ''namespace=kube-system'')
       quota_exceeded
     = ([ReadAll],
        marshal_response sample_codecs
          \<lparr>typeMeta = \<lparr>Kind = [], APIVersion = []\<rparr>, Request = None,
           Response = Some \<lparr>rsp_UID = ''uid-1'', Allowed = True, Result = None,
                            Patch = Some ''null'', PatchType = None\<rparr>\<rparr>)"
proof -
  have ns: "req_Namespace (sample_AdmissionRequest ''kube-system'') = NamespacePublic
      \<or> req_Namespace (sample_AdmissionRequest ''kube-system'') = NamespaceSystem"
    by (simp add: sample_AdmissionRequest_def NamespaceSystem_def)
  have m: "Method (sample_request ''POST'' ''namespace=kube-system'') = MethodPost"
    by (simp add: sample_request_Method MethodPost_def)
  show ?thesis
    using protected_namespace_allowed [where ac = "\<lparr>admitFuncs = [quota_exceeded]\<rparr>"
        and adm = quota_exceeded, OF m sample_request_Body sample_request_contentType
        sample_Decode_system sample_review_Request ns]
    by (simp add: sample_review_def sample_AdmissionRequest_def)
qed

text \<open>
  C4. Once a registered function has returned an error, no function at a later position of
  the list is called, for every request and every list of functions.
\<close>

theorem later_functions_not_invoked:
  assumes "Body r = Inr body" and "Decode L body = Inr review" and "Request review = Some req"
    and "i < j" and "i < length (admitFuncs ac)" and "snd ((admitFuncs ac ! i) req) \<noteq> None"
  shows "Invoke j \<notin> set (fst (admissionController_doServeAdmitFunc L ac r))"
proof
  assume "Invoke j \<in> set (fst (admissionController_doServeAdmitFunc L ac r))"
  with assms(1-3) have "Invoke j \<in> set (snd (admitFuncs_loop (admitFuncs ac) 0 req None))"
    by (auto simp: admissionController_doServeAdmitFunc_def Let_def
        split: if_splits sum.splits prod.splits)
  from admitFuncs_loop_Invoke[OF this] assms(4) have "snd ((admitFuncs ac ! i) req) = None"
    by simp
  with assms(6) show False by simp
qed

text \<open>
  C4 with three registered functions of which the second fails: the third is not called.
\<close>

theorem later_functions_not_invoked_witness:
  "(1::nat) < 2
   \<and> snd (([add_label, quota_exceeded, add_label] ! 1) (sample_AdmissionRequest ''default''))
       \<noteq> None
   \<and> Invoke 2 \<notin> set (fst (admissionController_doServeAdmitFunc sample_codecs
         \<lparr>admitFuncs = [add_label, quota_exceeded, add_label]\<rparr>
         (sample_request ''POST'' ''namespace=default'')))"
proof -
  have lt: "(1::nat) < 2" by simp
  have len: "1 < length (admitFuncs \<lparr>admitFuncs = [add_label, quota_exceeded, add_label]\<rparr>)"
    by simp
  have fails: "snd ((admitFuncs \<lparr>admitFuncs = [add_label, quota_exceeded, add_label]\<rparr> ! 1)
      (sample_AdmissionRequest ''default'')) \<noteq> None"
    by (simp add: quota_exceeded_def)
  show ?thesis
    using later_functions_not_invoked [where r = "sample_request ''POST'' ''namespace=default''",
        OF sample_request_Body sample_Decode_default sample_review_Request lt len fails] fails
    by simp
qed

text \<open>
  C5. A response that carries a patch should have its patch type set to \<open>JSONPatch\<close>. The
  controller's handler sets it (line 149); the single-function handler does not: with
  \<open>add_label\<close> and a request in namespace \<open>default\<close>, the review it encodes carries the
  patch and no patch type.
\<close>

theorem single_handler_patch_without_patchType:
  "doServeAdmitFunc sample_codecs (sample_request ''POST'' ''namespace=default'') add_label
   = ([ReadAll, Invoke 0],
      marshal_response sample_codecs
        \<lparr>typeMeta = \<lparr>Kind = [], APIVersion = []\<rparr>, Request = None,
         Response = Some \<lparr>rsp_UID = ''uid-1'', Allowed = True, Result = None,
                          Patch = Some ''[{add /metadata/labels/injected true}]'',
                          PatchType = None\<rparr>\<rparr>)"
  by (simp add: doServeAdmitFunc_def constant_defs sample_defs)

text \<open>
  C6. Every response that either handler encodes has one of two shapes: it allows the
  request and has no denial message (with or without a patch), or it denies the request, has
  a denial message and carries no patch. So no response has both a patch and a denial
  message.
\<close>

theorem response_allows_or_denies:
  assumes "snd (admissionController_doServeAdmitFunc L ac r) = Inr bytes
      \<or> snd (doServeAdmitFunc L r adm) = Inr bytes"
  shows "\<exists>review rsp. Marshal_review L review = Inr bytes \<and> Response review = Some rsp
         \<and> ((Allowed rsp \<and> Result rsp = None)
              \<or> (\<not> Allowed rsp \<and> Result rsp \<noteq> None \<and> elems (Patch rsp) = []))"
  using assms
proof
  assume "snd (admissionController_doServeAdmitFunc L ac r) = Inr bytes"
  from admissionController_returns[OF this]
  obtain review :: AdmissionReview and req patchBytes where
    "Marshal_review L
       \<lparr>typeMeta = typeMeta review, Request = Some req,
        Response = Some \<lparr>rsp_UID = req_UID req, Allowed = True, Result = None,
                         Patch = Some patchBytes,
                         PatchType = Some PatchTypeJSONPatch\<rparr>\<rparr> = Inr bytes"
    by auto
  then show ?thesis by force
next
  assume "snd (doServeAdmitFunc L r adm) = Inr bytes"
  from doServeAdmitFunc_returns[OF this] obtain req :: AdmissionRequest where
    "(\<exists>m. Marshal_review L
             \<lparr>typeMeta = \<lparr>Kind = [], APIVersion = []\<rparr>, Request = None,
              Response = Some \<lparr>rsp_UID = req_UID req, Allowed = False,
                               Result = Some \<lparr>Message = m\<rparr>, Patch = None,
                               PatchType = None\<rparr>\<rparr> = Inr bytes)
     \<or> (\<exists>patchBytes. Marshal_review L
             \<lparr>typeMeta = \<lparr>Kind = [], APIVersion = []\<rparr>, Request = None,
              Response = Some \<lparr>rsp_UID = req_UID req, Allowed = True, Result = None,
                               Patch = Some patchBytes, PatchType = None\<rparr>\<rparr> = Inr bytes)"
    by auto
  then show ?thesis
  proof (elim disjE exE)
    fix m
    assume "Marshal_review L
              \<lparr>typeMeta = \<lparr>Kind = [], APIVersion = []\<rparr>, Request = None,
               Response = Some \<lparr>rsp_UID = req_UID req, Allowed = False,
                                Result = Some \<lparr>Message = m\<rparr>, Patch = None,
                                PatchType = None\<rparr>\<rparr> = Inr bytes"
    then show ?thesis by (force simp: elems_def)
  next
    fix patchBytes
    assume "Marshal_review L
              \<lparr>typeMeta = \<lparr>Kind = [], APIVersion = []\<rparr>, Request = None,
               Response = Some \<lparr>rsp_UID = req_UID req, Allowed = True, Result = None,
                                Patch = Some patchBytes, PatchType = None\<rparr>\<rparr> = Inr bytes"
    then show ?thesis by force
  qed
qed

text \<open>
  C6 at the denial that the single-function handler returns for \<open>quota_exceeded\<close>.
\<close>

theorem response_allows_or_denies_witness:
  "snd (doServeAdmitFunc sample_codecs (sample_request ''POST'' ''namespace=default'')
          quota_exceeded)
     = Inr ''{uid=uid-1,allowed=false,message=quota exceeded}''
   \<and> (\<exists>review rsp.
         Marshal_review sample_codecs review
           = Inr ''{uid=uid-1,allowed=false,message=quota exceeded}''
       \<and> Response review = Some rsp
       \<and> ((Allowed rsp \<and> Result rsp = None)
            \<or> (\<not> Allowed rsp \<and> Result rsp \<noteq> None \<and> elems (Patch rsp) = [])))"
proof -
  have h: "snd (doServeAdmitFunc sample_codecs (sample_request ''POST'' ''namespace=default'')
          quota_exceeded)
     = Inr ''{uid=uid-1,allowed=false,message=quota exceeded}''"
    by (simp add: doServeAdmitFunc_def constant_defs sample_defs)
  show ?thesis
    using response_allows_or_denies [where L = sample_codecs
        and r = "sample_request ''POST'' ''namespace=default''" and adm = quota_exceeded
        and bytes = "''{uid=uid-1,allowed=false,message=quota exceeded}''", OF disjI2, OF h] h
    by simp
qed

text \<open>
  C7. A request whose method is not POST is answered with status 405: the first effect of
  either handler is \<open>WriteHeader 405\<close>, the body is never read and no decision function is
  called. The later \<open>WriteHeader 500\<close> of the wrapper does not change the status.
\<close>

theorem non_POST_method_not_allowed:
  assumes "Method r \<noteq> MethodPost"
  shows "admissionController_ServeHTTP L ac r
           = [WriteHeader StatusMethodNotAllowed, WriteHeader StatusInternalServerError,
              Write (''invalid method '' @ Method r @ '', only POST requests are allowed'')]
       \<and> statusCode (admissionController_ServeHTTP L ac r) = Some StatusMethodNotAllowed
       \<and> ReadAll \<notin> set (admissionController_ServeHTTP L ac r)
       \<and> (\<forall>i. Invoke i \<notin> set (admissionController_ServeHTTP L ac r))
       \<and> serveAdmitFunc L r adm
           = [WriteHeader StatusMethodNotAllowed, WriteHeader StatusInternalServerError,
              Write (''invalid method '' @ Method r @ '', only POST requests are allowed'')]
       \<and> statusCode (serveAdmitFunc L r adm) = Some StatusMethodNotAllowed
       \<and> ReadAll \<notin> set (serveAdmitFunc L r adm)
       \<and> (\<forall>i. Invoke i \<notin> set (serveAdmitFunc L r adm))"
  using assms
  by (simp add: admissionController_ServeHTTP_def admissionController_doServeAdmitFunc_def
      serveAdmitFunc_def doServeAdmitFunc_def)

text \<open>
  C7 at a GET request.
\<close>

theorem non_POST_method_not_allowed_witness:
  "Method (sample_request ''GET'' ''namespace=default'') \<noteq> MethodPost
   \<and> statusCode (admissionController_ServeHTTP sample_codecs \<lparr>admitFuncs = [add_label]\<rparr>
        (sample_request ''GET'' ''namespace=default'')) = Some 405
   \<and> ReadAll \<notin> set (admissionController_ServeHTTP sample_codecs \<lparr>admitFuncs = [add_label]\<rparr>
        (sample_request ''GET'' ''namespace=default''))
   \<and> (\<forall>i. Invoke i \<notin> set (admissionController_ServeHTTP sample_codecs
        \<lparr>admitFuncs = [add_label]\<rparr> (sample_request ''GET'' ''namespace=default'')))
   \<and> statusCode (serveAdmitFunc sample_codecs (sample_request ''GET'' ''namespace=default'')
        add_label) = Some 405
   \<and> ReadAll \<notin> set (serveAdmitFunc sample_codecs (sample_request ''GET'' ''namespace=default'')
        add_label)
   \<and> (\<forall>i. Invoke i \<notin> set (serveAdmitFunc sample_codecs
        (sample_request ''GET'' ''namespace=default'') add_label))"
proof -
  have h: "Method (sample_request ''GET'' ''namespace=default'') \<noteq> MethodPost"
    by (simp add: sample_request_Method MethodPost_def)
  show ?thesis
    using non_POST_method_not_allowed [where L = sample_codecs
        and ac = "\<lparr>admitFuncs = [add_label]\<rparr>" and adm = add_label, OF h] h
    by (simp add: StatusMethodNotAllowed_def)
qed

text \<open>
  C8. When the body of a POST request does not deserialize, or deserializes to a review with
  no request, either handler returns an error after \<open>WriteHeader 400\<close>: the status is 400,
  no decision function is called and no review is encoded (the handler's result is an
  error, which the wrapper writes as the body).
\<close>

theorem undecodable_body_bad_request:
  assumes "Method r = MethodPost" and "Body r = Inr body"
    and "(\<exists>e. Decode L body = Inl e)
         \<or> (\<exists>review. Decode L body = Inr review \<and> Request review = None)"
  shows "(\<exists>e. admissionController_doServeAdmitFunc L ac r
                = ([ReadAll, WriteHeader StatusBadRequest], Inl e)
              \<and> admissionController_ServeHTTP L ac r
                = [ReadAll, WriteHeader StatusBadRequest,
                   WriteHeader StatusInternalServerError, Write e])
       \<and> statusCode (admissionController_ServeHTTP L ac r) = Some StatusBadRequest
       \<and> (\<forall>i. Invoke i \<notin> set (admissionController_ServeHTTP L ac r))
       \<and> (\<exists>e. doServeAdmitFunc L r adm = ([ReadAll, WriteHeader StatusBadRequest], Inl e)
              \<and> serveAdmitFunc L r adm
                = [ReadAll, WriteHeader StatusBadRequest,
                   WriteHeader StatusInternalServerError, Write e])
       \<and> statusCode (serveAdmitFunc L r adm) = Some StatusBadRequest
       \<and> (\<forall>i. Invoke i \<notin> set (serveAdmitFunc L r adm))"
proof -
  from assms have a: "\<exists>e. admissionController_doServeAdmitFunc L ac r
                = ([ReadAll, WriteHeader StatusBadRequest], Inl e)"
    by (auto simp: admissionController_doServeAdmitFunc_def Let_def)
  from assms have b: "\<exists>e. doServeAdmitFunc L r adm
                = ([ReadAll, WriteHeader StatusBadRequest], Inl e)"
    by (auto simp: doServeAdmitFunc_def Let_def)
  from a b show ?thesis
    by (auto simp: admissionController_ServeHTTP_def serveAdmitFunc_def)
qed

text \<open>
  C8 at the body \<open>{}\<close>, which the sample decoder reads as a review with no request.
\<close>

theorem undecodable_body_bad_request_witness:
  "((\<exists>e. Decode sample_codecs ''{}'' = Inl e)
      \<or> (\<exists>review. Decode sample_codecs ''{}'' = Inr review \<and> Request review = None))
   \<and> statusCode (admissionController_ServeHTTP sample_codecs \<lparr>admitFuncs = [add_label]\<rparr>
        (sample_request ''POST'' ''{}'')) = Some 400
   \<and> (\<forall>i. Invoke i \<notin> set (admissionController_ServeHTTP sample_codecs
        \<lparr>admitFuncs = [add_label]\<rparr> (sample_request ''POST'' ''{}'')))
   \<and> statusCode (serveAdmitFunc sample_codecs (sample_request ''POST'' ''{}'') add_label)
       = Some 400
   \<and> (\<forall>i. Invoke i \<notin> set (serveAdmitFunc sample_codecs (sample_request ''POST'' ''{}'')
        add_label))"
proof -
  have m: "Method (sample_request ''POST'' ''{}'') = MethodPost"
    by (simp add: sample_request_Method MethodPost_def)
  have d: "(\<exists>e. Decode sample_codecs ''{}'' = Inl e)
      \<or> (\<exists>review. Decode sample_codecs ''{}'' = Inr review \<and> Request review = None)"
    by (simp add: sample_codecs_def sample_Decode_def)
  show ?thesis
    using undecodable_body_bad_request [where L = sample_codecs
        and ac = "\<lparr>admitFuncs = [add_label]\<rparr>" and adm = add_label,
        OF m sample_request_Body d] d
    by (simp add: StatusBadRequest_def)
qed

text \<open>
  C9. Whenever a handler returns the encoding of a review for a decoded request, the UID of
  the review's response is the UID of the request. The single-function handler covers both
  the allowed and the denied outcome.
\<close>

theorem response_UID_is_request_UID:
  assumes "Body r = Inr body" and "Decode L body = Inr review" and "Request review = Some req"
  shows "(snd (admissionController_doServeAdmitFunc L ac r) = Inr bytes \<longrightarrow>
            (\<exists>out rsp. Marshal_review L out = Inr bytes \<and> Response out = Some rsp
                \<and> rsp_UID rsp = req_UID req))
       \<and> (snd (doServeAdmitFunc L r adm) = Inr bytes' \<longrightarrow>
            (\<exists>out rsp. Marshal_review L out = Inr bytes' \<and> Response out = Some rsp
                \<and> rsp_UID rsp = req_UID req))"
proof (intro conjI impI)
  assume "snd (admissionController_doServeAdmitFunc L ac r) = Inr bytes"
  from admissionController_returns[OF this] assms obtain patchBytes where
    "Marshal_review L
       \<lparr>typeMeta = typeMeta review, Request = Some req,
        Response = Some \<lparr>rsp_UID = req_UID req, Allowed = True, Result = None,
                         Patch = Some patchBytes,
                         PatchType = Some PatchTypeJSONPatch\<rparr>\<rparr> = Inr bytes"
    by auto
  then show "\<exists>out rsp. Marshal_review L out = Inr bytes \<and> Response out = Some rsp
                \<and> rsp_UID rsp = req_UID req"
    by force
next
  assume "snd (doServeAdmitFunc L r adm) = Inr bytes'"
  from doServeAdmitFunc_returns[OF this] assms have
    "(\<exists>m. Marshal_review L
             \<lparr>typeMeta = \<lparr>Kind = [], APIVersion = []\<rparr>, Request = None,
              Response = Some \<lparr>rsp_UID = req_UID req, Allowed = False,
                               Result = Some \<lparr>Message = m\<rparr>, Patch = None,
                               PatchType = None\<rparr>\<rparr> = Inr bytes')
     \<or> (\<exists>patchBytes. Marshal_review L
             \<lparr>typeMeta = \<lparr>Kind = [], APIVersion = []\<rparr>, Request = None,
              Response = Some \<lparr>rsp_UID = req_UID req, Allowed = True, Result = None,
                               Patch = Some patchBytes, PatchType = None\<rparr>\<rparr> = Inr bytes')"
    by auto
  then show "\<exists>out rsp. Marshal_review L out = Inr bytes' \<and> Response out = Some rsp
                \<and> rsp_UID rsp = req_UID req"
    by (elim disjE exE) force+
qed

text \<open>
  C9 at a request that the controller allows with a patch and that the single-function
  handler denies.
\<close>

theorem response_UID_is_request_UID_witness:
  "snd (admissionController_doServeAdmitFunc sample_codecs \<lparr>admitFuncs = [add_label]\<rparr>
          (sample_request ''POST'' ''namespace=default''))
     = Inr ''{uid=uid-1,allowed=true,patch=[{add /metadata/labels/injected true}],patchType=JSONPatch}''
   \<and> snd (doServeAdmitFunc sample_codecs (sample_request ''POST'' ''namespace=default'')
          quota_exceeded)
     = Inr ''{uid=uid-1,allowed=false,message=quota exceeded}''
   \<and> (\<exists>out rsp. Marshal_review sample_codecs out
         = Inr ''{uid=uid-1,allowed=true,patch=[{add /metadata/labels/injected true}],patchType=JSONPatch}''
       \<and> Response out = Some rsp \<and> rsp_UID rsp = req_UID (sample_AdmissionRequest ''default''))
   \<and> (\<exists>out rsp. Marshal_review sample_codecs out
         = Inr ''{uid=uid-1,allowed=false,message=quota exceeded}''
       \<and> Response out = Some rsp \<and> rsp_UID rsp = req_UID (sample_AdmissionRequest ''default''))"
proof -
  have a: "snd (admissionController_doServeAdmitFunc sample_codecs \<lparr>admitFuncs = [add_label]\<rparr>
          (sample_request ''POST'' ''namespace=default''))
     = Inr ''{uid=uid-1,allowed=true,patch=[{add /metadata/labels/injected true}],patchType=JSONPatch}''"
    by (simp add: admissionController_doServeAdmitFunc_def constant_defs sample_defs)
  have b: "snd (doServeAdmitFunc sample_codecs (sample_request ''POST'' ''namespace=default'')
          quota_exceeded)
     = Inr ''{uid=uid-1,allowed=false,message=quota exceeded}''"
    by (simp add: doServeAdmitFunc_def constant_defs sample_defs)
  show ?thesis
    using response_UID_is_request_UID [where r = "sample_request ''POST'' ''namespace=default''"
        and ac = "\<lparr>admitFuncs = [add_label]\<rparr>" and adm = quota_exceeded
        and bytes = "''{uid=uid-1,allowed=true,patch=[{add /metadata/labels/injected true}],patchType=JSONPatch}''"
        and bytes' = "''{uid=uid-1,allowed=false,message=quota exceeded}''",
        OF sample_request_Body sample_Decode_default sample_review_Request] a b
    by simp
qed

text \<open>
  C10 as stated fails on the single-function handler: a function that returns an empty
  slice that is not nil, and no error, has collected no operation, and the patch of the
  response is \<open>[]\<close>, not \<open>null\<close>.
\<close>

theorem single_handler_empty_patch_not_null:
  "no_change (sample_AdmissionRequest ''default'') = (Some [], None)
   \<and> doServeAdmitFunc sample_codecs (sample_request ''POST'' ''namespace=default'') no_change
     = ([ReadAll, Invoke 0],
        marshal_response sample_codecs
          \<lparr>typeMeta = \<lparr>Kind = [], APIVersion = []\<rparr>, Request = None,
           Response = Some \<lparr>rsp_UID = ''uid-1'', Allowed = True, Result = None,
                            Patch = Some ''[]'', PatchType = None\<rparr>\<rparr>)
   \<and> Some ''[]'' \<noteq> Some ''null''"
  by (simp add: doServeAdmitFunc_def constant_defs sample_defs)

text \<open>
  C10, amended. When no function fails and no operation is collected (the namespace is
  protected, or every function returns an empty slice), the response is an allowance whose
  patch field is present and is the encoding of the collected slice. In the controller's
  handler that slice is nil and the patch is \<open>null\<close>. In the single-function handler the
  patch is \<open>null\<close> when the namespace is protected or the function returned the nil slice
  \<open>ps\<close>, and \<open>[]\<close> when it returned an empty slice that is not nil.
\<close>

theorem empty_patch_is_present:
  assumes "Method r = MethodPost" and "Body r = Inr body"
    and "Header_Get (Header r) ''Content-Type'' = jsonContentType"
    and "Decode L body = Inr review" and "Request review = Some req"
    and "isKubeNamespace (req_Namespace req)
         \<or> (\<forall>f\<in>set (admitFuncs ac). snd (f req) = None \<and> elems (fst (f req)) = [])"
    and "isKubeNamespace (req_Namespace req) \<or> (adm req = (ps, None) \<and> elems ps = [])"
  shows "snd (admissionController_doServeAdmitFunc L ac r)
           = marshal_response L
               \<lparr>typeMeta = typeMeta review, Request = Some req,
                Response = Some \<lparr>rsp_UID = req_UID req, Allowed = True, Result = None,
                                 Patch = Some ''null'', PatchType = Some PatchTypeJSONPatch\<rparr>\<rparr>
       \<and> snd (doServeAdmitFunc L r adm)
           = marshal_response L
               \<lparr>typeMeta = \<lparr>Kind = [], APIVersion = []\<rparr>, Request = None,
                Response = Some \<lparr>rsp_UID = req_UID req, Allowed = True, Result = None,
                                 Patch = Some (if isKubeNamespace (req_Namespace req) \<or> ps = None
                                               then ''null'' else ''[]''),
                                 PatchType = None\<rparr>\<rparr>"
proof -
  have loop: "fst (admitFuncs_loop (admitFuncs ac) 0 req None) = None"
    if "\<not> isKubeNamespace (req_Namespace req)"
    using that assms(6) by (simp add: admitFuncs_loop_no_ops)
  have a: "snd (admissionController_doServeAdmitFunc L ac r)
           = marshal_response L
               \<lparr>typeMeta = typeMeta review, Request = Some req,
                Response = Some \<lparr>rsp_UID = req_UID req, Allowed = True, Result = None,
                                 Patch = Some ''null'', PatchType = Some PatchTypeJSONPatch\<rparr>\<rparr>"
  proof (cases "isKubeNamespace (req_Namespace req)")
    case True
    with assms(1-5) show ?thesis
      by (simp add: admissionController_doServeAdmitFunc_def json_Marshal_slice_def)
  next
    case False
    from loop[OF False] obtain evs where
      "admitFuncs_loop (admitFuncs ac) 0 req None = (None, evs)"
      by (cases "admitFuncs_loop (admitFuncs ac) 0 req None") simp
    with False assms(1-5) show ?thesis
      by (simp add: admissionController_doServeAdmitFunc_def json_Marshal_slice_def)
  qed
  have b: "snd (doServeAdmitFunc L r adm)
           = marshal_response L
               \<lparr>typeMeta = \<lparr>Kind = [], APIVersion = []\<rparr>, Request = None,
                Response = Some \<lparr>rsp_UID = req_UID req, Allowed = True, Result = None,
                                 Patch = Some (if isKubeNamespace (req_Namespace req) \<or> ps = None
                                               then ''null'' else ''[]''),
                                 PatchType = None\<rparr>\<rparr>"
    using assms(1-5,7)
    by (cases ps) (auto simp: doServeAdmitFunc_def json_Marshal_slice_def elems_def)
  from a b show ?thesis by simp
qed

text \<open>
  C10, amended, at two registered functions that change nothing and at the single function
  \<open>no_change\<close>: \<open>null\<close> from the controller, \<open>[]\<close> from the single-function handler.
\<close>

theorem empty_patch_is_present_witness:
  "snd (no_change (sample_AdmissionRequest ''default'')) = None
   \<and> elems (fst (no_change (sample_AdmissionRequest ''default''))) = []
   \<and> snd (admissionController_doServeAdmitFunc sample_codecs
          \<lparr>admitFuncs = [no_change, no_change]\<rparr> (sample_request ''POST'' ''namespace=default''))
     = Inr ''{uid=uid-1,allowed=true,patch=null,patchType=JSONPatch}''
   \<and> snd (doServeAdmitFunc sample_codecs (sample_request ''POST'' ''namespace=default'')
          no_change)
     = Inr ''{uid=uid-1,allowed=true,patch=[]}''"
proof -
  let ?req = "sample_AdmissionRequest ''default''"
  have m: "Method (sample_request ''POST'' ''namespace=default'') = MethodPost"
    by (simp add: sample_request_Method MethodPost_def)
  have fs: "isKubeNamespace (req_Namespace ?req)
      \<or> (\<forall>f\<in>set (admitFuncs \<lparr>admitFuncs = [no_change, no_change]\<rparr>).
            snd (f ?req) = None \<and> elems (fst (f ?req)) = [])"
    by (simp add: no_change_def elems_def)
  have ad: "isKubeNamespace (req_Namespace ?req)
      \<or> (no_change ?req = (Some [], None) \<and> elems (Some []) = [])"
    by (simp add: no_change_def elems_def)
  have ns: "\<not> isKubeNamespace (req_Namespace ?req)"
    by (simp add: isKubeNamespace_def sample_AdmissionRequest_def NamespacePublic_def
        NamespaceSystem_def)
  have fs': "snd (no_change ?req) = None \<and> elems (fst (no_change ?req)) = []"
    by (simp add: no_change_def elems_def)
  show ?thesis
    using empty_patch_is_present [where L = sample_codecs
        and ac = "\<lparr>admitFuncs = [no_change, no_change]\<rparr>" and adm = no_change
        and ps = "Some []",
        OF m sample_request_Body sample_request_contentType sample_Decode_default
        sample_review_Request fs ad] ns fs'
    by (simp add: marshal_response_def sample_codecs_def sample_Marshal_review_def
        sample_review_def sample_AdmissionRequest_def sample_TypeMeta_def PatchTypeJSONPatch_def)
qed

end
